theory Spec2Isabelle
  imports Main "HOL-Library.Word"
begin

unbundle bit_operations_syntax

section \<open>Codec layer (helpers.ts)\<close>

text \<open>
  A \<open>Uint8Array\<close> is a list of 8-bit words.  A JavaScript string is a \<open>string\<close> when it
  only ever holds base64 or UTF-8 text, and a list of 16-bit code units where the code reads
  it with \<open>charCodeAt\<close>.  JavaScript numbers and BigInts are modelled on their integral
  values as \<open>int\<close>; the \<open>Number.isInteger\<close> tests of the source always pass there.
\<close>

type_synonym byte = "8 word"
type_synonym bytes = "byte list"

text \<open>
  Every \<open>throw\<close> of the library is a constructor, named after the message it carries:
  \<^item> \<open>RangeError_uint64\<close>: \<open>RangeError('value out of uint64 range')\<close>
  \<^item> \<open>EmptyBase64\<close>: \<open>Error('Empty base64 string')\<close>
  \<^item> \<open>ExpectedBytes8 n\<close>: \<open>Error(`Expected 8 bytes for uint64, got ${n}`)\<close>
  \<^item> \<open>InvalidCharacter\<close>: what \<open>atob\<close> raises on text that is not base64
  \<^item> \<open>NotUint32\<close>: the string \<open>'Number must be a valid uint32'\<close> thrown by \<open>uint32ToBase64\<close>
  \<^item> \<open>InvalidBase64\<close>: \<open>Error('Invalid base64 string')\<close>
  \<^item> \<open>NotFourBytes\<close>: \<open>Error('Base64 must represent exactly 4 bytes')\<close>
  \<^item> \<open>OffsetOutOfBounds offset len\<close>: \<open>Error(`Offset ${offset} is out of bounds for buffer length ${len}`)\<close>
  \<^item> \<open>BufferOverflowAt len\<close>: \<open>Error(`Buffer overflow: cannot write beyond buffer length ${len}`)\<close>
  \<^item> \<open>BufferOverflowNeed need avail\<close>: \<open>Error(`Buffer overflow: need ${need} bytes but only ${avail} available`)\<close>
  \<^item> \<open>SourceTypeInvalid\<close>: \<open>Error('Source must be a string or Uint8Array')\<close>
\<close>

datatype codec_error =
    RangeError_uint64
  | EmptyBase64
  | ExpectedBytes8 nat
  | InvalidCharacter
  | NotUint32
  | InvalidBase64
  | NotFourBytes
  | OffsetOutOfBounds int nat
  | BufferOverflowAt nat
  | BufferOverflowNeed nat int
  | SourceTypeInvalid

subsection \<open>The platform's base64 primitives\<close>

text \<open>
  \<open>btoa\<close>, \<open>atob\<close> and \<open>Buffer\<close> belong to the host, not to the library.  The encoder is
  RFC 4648 base64 with padding, which is what both \<open>btoa(String.fromCharCode(...bytes))\<close>
  and \<open>Buffer.from(bytes).toString('base64')\<close> compute.  The decoder is the forgiving-base64
  decoding of \<open>atob\<close>; on canonical padded text, which is all the library's own encoders
  emit, \<open>Buffer.from(s, 'base64')\<close> returns the same bytes.
\<close>

definition b64_alphabet :: string where
  "b64_alphabet = ''ABCDEFGHIJKLMNOPQRSTUVWXYZabcdefghijklmnopqrstuvwxyz0123456789+/''"

definition b64_char :: "nat \<Rightarrow> char" where
  "b64_char i = b64_alphabet ! i"

fun index_of :: "'a \<Rightarrow> 'a list \<Rightarrow> nat option" where
  "index_of x [] = None"
| "index_of x (y # ys) =
     (if x = y then Some 0 else (case index_of x ys of None \<Rightarrow> None | Some i \<Rightarrow> Some (Suc i)))"

definition b64_index :: "char \<Rightarrow> nat option" where
  "b64_index c = index_of c b64_alphabet"

fun base64_encode :: "bytes \<Rightarrow> string" where
  "base64_encode (a # b # c # rest) =
     [b64_char (unat a div 4),
      b64_char ((unat a mod 4) * 16 + unat b div 16),
      b64_char ((unat b mod 16) * 4 + unat c div 64),
      b64_char (unat c mod 64)] @ base64_encode rest"
| "base64_encode [a, b] =
     [b64_char (unat a div 4),
      b64_char ((unat a mod 4) * 16 + unat b div 16),
      b64_char ((unat b mod 16) * 4),
      CHR ''='']"
| "base64_encode [a] =
     [b64_char (unat a div 4),
      b64_char ((unat a mod 4) * 16),
      CHR ''='', CHR ''='']"
| "base64_encode [] = []"

definition is_ascii_whitespace :: "char \<Rightarrow> bool" where
  "is_ascii_whitespace c \<longleftrightarrow> c \<in> {CHR 0x09, CHR 0x0A, CHR 0x0C, CHR 0x0D, CHR 0x20}"

definition strip_padding :: "string \<Rightarrow> string" where
  "strip_padding d =
     (if length d mod 4 = 0 then
        (case rev d of
           e1 # e2 # r \<Rightarrow>
             (if e1 = CHR ''='' then (if e2 = CHR ''='' then rev r else rev (e2 # r)) else d)
         | _ \<Rightarrow> d)
      else d)"

fun those_sextets :: "string \<Rightarrow> nat list option" where
  "those_sextets [] = Some []"
| "those_sextets (c # cs) =
     (case b64_index c of
        None \<Rightarrow> None
      | Some i \<Rightarrow> (case those_sextets cs of None \<Rightarrow> None | Some is \<Rightarrow> Some (i # is)))"

fun decode_sextets :: "nat list \<Rightarrow> bytes" where
  "decode_sextets (s0 # s1 # s2 # s3 # rest) =
     [of_nat (s0 * 4 + s1 div 16),
      of_nat ((s1 mod 16) * 16 + s2 div 4),
      of_nat ((s2 mod 4) * 64 + s3)] @ decode_sextets rest"
| "decode_sextets [s0, s1, s2] =
     [of_nat (s0 * 4 + s1 div 16), of_nat ((s1 mod 16) * 16 + s2 div 4)]"
| "decode_sextets [s0, s1] = [of_nat (s0 * 4 + s1 div 16)]"
| "decode_sextets [s0] = []"
| "decode_sextets [] = []"

definition base64_decode :: "string \<Rightarrow> bytes option" where
  "base64_decode s =
     (let d = strip_padding (filter (\<lambda>c. \<not> is_ascii_whitespace c) s)
      in if length d mod 4 = 1 then None
         else (case those_sextets d of None \<Rightarrow> None | Some ss \<Rightarrow> Some (decode_sextets ss)))"

subsection \<open>byteArrayToBase64, base64StringToByteArr\<close>

definition byteArrayToBase64 :: "bytes \<Rightarrow> string" where
  "byteArrayToBase64 uint8Array = base64_encode uint8Array"

definition base64StringToByteArr :: "string \<Rightarrow> codec_error + bytes" where
  "base64StringToByteArr base64 =
     (if base64 = [] then Inr []
      else (case base64_decode base64 of None \<Rightarrow> Inl InvalidCharacter | Some bs \<Rightarrow> Inr bs))"

subsection \<open>bigIntToBase64, base64ToBigInt\<close>

text \<open>\<open>DataView.setBigUint64(0, n, false)\<close> and \<open>getBigUint64(0, false)\<close>: eight bytes, most
  significant first.\<close>

definition setBigUint64 :: "int \<Rightarrow> bytes" where
  "setBigUint64 n = map (\<lambda>k. word_of_int (n div 2 ^ (8 * k))) [7, 6, 5, 4, 3, 2, 1, 0]"

definition getBigUint64 :: "bytes \<Rightarrow> int" where
  "getBigUint64 bs = foldl (\<lambda>acc b. acc * 256 + uint b) 0 (take 8 bs)"

definition bigIntToBase64 :: "int \<Rightarrow> codec_error + string" where
  "bigIntToBase64 n =
     (if n < 0 \<or> n > 0xFFFFFFFFFFFFFFFF then Inl RangeError_uint64
      else Inr (base64_encode (setBigUint64 n)))"

definition base64ToBigInt :: "string \<Rightarrow> codec_error + int" where
  "base64ToBigInt b64 =
     (if b64 = [] then Inl EmptyBase64
      else (case base64_decode b64 of
              None \<Rightarrow> Inl InvalidCharacter
            | Some bs \<Rightarrow>
                (if length bs \<noteq> 8 then Inl (ExpectedBytes8 (length bs))
                 else Inr (getBigUint64 bs))))"

subsection \<open>uint32ToBase64, base64ToUint32\<close>

text \<open>The shifts \<open>>>>\<close>, \<open><<\<close> and \<open>|\<close> of JavaScript work on the 32-bit value of their
  operand, and \<open>>>> 0\<close> reads the result as unsigned; a store into a \<open>Uint8Array\<close> keeps the
  low eight bits.\<close>

definition uint32ToBase64 :: "int \<Rightarrow> codec_error + string" where
  "uint32ToBase64 num =
     (if num < 0 \<or> num > 4294967295 then Inl NotUint32
      else
        (let w = (word_of_int num :: 32 word);
             bs = [ucast (drop_bit 24 w AND 0xFF),
                   ucast (drop_bit 16 w AND 0xFF),
                   ucast (drop_bit 8 w AND 0xFF),
                   ucast (w AND 0xFF)] :: bytes
         in Inr (base64_encode bs)))"

definition base64ToUint32 :: "string \<Rightarrow> codec_error + int" where
  "base64ToUint32 b64 =
     (case base64_decode b64 of
        None \<Rightarrow> Inl InvalidBase64
      | Some bs \<Rightarrow>
          (case bs of
             [b0, b1, b2, b3] \<Rightarrow>
               Inr (uint (push_bit 24 (ucast b0 :: 32 word) OR push_bit 16 (ucast b1)
                          OR push_bit 8 (ucast b2) OR ucast b3))
           | _ \<Rightarrow> Inl NotFourBytes))"

subsection \<open>copyToBuffer\<close>






section \<open>The capability provider (types.ts)\<close>

text \<open>
  The cryptographic provider belongs to the host.  A key handle is a value of an opaque type
  \<open>'k\<close>, a rejection of the provider a value of an opaque type \<open>'e\<close>.  Every call may depend
  on and change the provider's own state (its random source, its key store), a value of type
  \<open>'w\<close> that is threaded through the calls in the order the code awaits them.  The
  algorithm argument is an identifier or one of the object literals the code builds.
\<close>

record 'k CryptoKeyPair =
  publicKey :: 'k
  privateKey :: 'k

datatype 'k algorithm =
    AlgString string
  | AlgName string
  | AlgPublic string 'k
  | AlgHkdf string string bytes bytes
  | AlgLength string nat
  | AlgIv string bytes

record ('k, 'e, 'w) SubtleCrypto =
  generateKey :: "'k algorithm \<Rightarrow> bool \<Rightarrow> string list \<Rightarrow> 'w \<Rightarrow> ('e + 'k CryptoKeyPair) \<times> 'w"
  deriveBits :: "'k algorithm \<Rightarrow> 'k \<Rightarrow> nat \<Rightarrow> 'w \<Rightarrow> ('e + bytes) \<times> 'w"
  importKey :: "string \<Rightarrow> bytes \<Rightarrow> 'k algorithm \<Rightarrow> bool \<Rightarrow> string list \<Rightarrow> 'w \<Rightarrow> ('e + 'k) \<times> 'w"
  exportKey :: "string \<Rightarrow> 'k \<Rightarrow> 'w \<Rightarrow> ('e + bytes) \<times> 'w"
  encrypt :: "'k algorithm \<Rightarrow> 'k \<Rightarrow> bytes \<Rightarrow> 'w \<Rightarrow> ('e + bytes) \<times> 'w"
  decrypt :: "'k algorithm \<Rightarrow> 'k \<Rightarrow> bytes \<Rightarrow> 'w \<Rightarrow> ('e + bytes) \<times> 'w"
  sign :: "'k algorithm \<Rightarrow> 'k \<Rightarrow> bytes \<Rightarrow> 'w \<Rightarrow> ('e + bytes) \<times> 'w"
  verify :: "'k algorithm \<Rightarrow> 'k \<Rightarrow> bytes \<Rightarrow> bytes \<Rightarrow> 'w \<Rightarrow> ('e + bool) \<times> 'w"

text \<open>
  The host as \<open>init\<close> and \<open>generateRandomBytes\<close> see it: \<open>globalThis.crypto?.subtle\<close>, the
  \<open>webcrypto.subtle\<close> of \<open>import('crypto')\<close> (\<open>None\<close> when the import fails), and the random
  source behind \<open>crypto.getRandomValues\<close> or \<open>randomBytes\<close>.
\<close>

record ('k, 'e, 'w) host =
  global_subtle :: "('k, 'e, 'w) SubtleCrypto option"
  node_subtle :: "('k, 'e, 'w) SubtleCrypto option"
  random_source :: "nat \<Rightarrow> 'w \<Rightarrow> ('e + bytes) \<times> 'w"

text \<open>
  What the two classes throw themselves, and what they pass on:
  \<^item> \<open>CryptoNotInitialized\<close>: \<open>Error('Crypto not initialized')\<close>
  \<^item> \<open>CryptoNotInitializedGetInstance\<close>: \<open>Error('Crypto not initialized. Call getInstance() first.')\<close>
  \<^item> \<open>NoEncryptionKey\<close>: \<open>Error('No encryption key available. Call generateKey() first.')\<close>
  \<^item> \<open>NoDecryptionKey\<close>: \<open>Error('No decryption key available. Call generateKey() first.')\<close>
  \<^item> \<open>SignatureNotInitialized\<close>: \<open>Error('Signature not initialized')\<close>
  \<^item> \<open>ServerKeyNotInitialized\<close>: \<open>Error('Server public key not initialized. Call initializeServerKey() first.')\<close>
  \<^item> \<open>WebCryptoNotAvailable\<close>: \<open>Error('Web Crypto API not available in this environment')\<close>
  \<^item> \<open>LengthNegative\<close>: \<open>Error('Length must be non-negative')\<close>
  \<^item> \<open>CodecError e\<close>: an error of the codec layer
  \<^item> \<open>ProviderError e\<close>: the rejection \<open>e\<close> of a provider call, as the provider raised it
\<close>

datatype 'e error =
    CryptoNotInitialized
  | CryptoNotInitializedGetInstance
  | NoEncryptionKey
  | NoDecryptionKey
  | SignatureNotInitialized
  | ServerKeyNotInitialized
  | WebCryptoNotAvailable
  | LengthNegative
  | CodecError codec_error
  | ProviderError 'e

text \<open>An argument of type \<open>string | Uint8Array\<close>; the string is held as its UTF-8 text, so
  \<open>new TextEncoder().encode\<close> reads off its bytes.\<close>

datatype data = Text string | Binary bytes

definition TextEncoder_encode :: "string \<Rightarrow> bytes" where
  "TextEncoder_encode s = map (\<lambda>c. of_nat (of_char c)) s"

fun data_bytes :: "data \<Rightarrow> bytes" where
  "data_bytes (Text s) = TextEncoder_encode s"
| "data_bytes (Binary b) = b"

definition generateRandomBytes ::
  "('k, 'e, 'w) host \<Rightarrow> int \<Rightarrow> 'w \<Rightarrow> ('e error + bytes) \<times> 'w" where
  "generateRandomBytes h len w =
     (if len < 0 then (Inl LengthNegative, w)
      else (case random_source h (nat len) w of
              (Inl e, w1) \<Rightarrow> (Inl (ProviderError e), w1)
            | (Inr array, w1) \<Rightarrow> (Inr array, w1)))"

record EncryptionResult =
  ciphertext :: bytes
  nonce :: bytes

section \<open>KeyExchange (KeyExchange.ts)\<close>

text \<open>
  The fields of an instance.  A method takes the instance and the provider's state and returns
  its result, or the error it throws, with the instance and the provider's state as the call
  leaves them: an assignment to a field made before a \<open>throw\<close> stays.
\<close>

record ('k, 'e, 'w) KeyExchange =
  subtle :: "('k, 'e, 'w) SubtleCrypto option"
  keypair :: "'k CryptoKeyPair option"
  txKey :: "'k option"
  rxKey :: "'k option"

definition new_KeyExchange :: "('k, 'e, 'w) KeyExchange" where
  "new_KeyExchange = \<lparr>KeyExchange.subtle = None, keypair = None, txKey = None, rxKey = None\<rparr>"

definition KeyExchange_init ::
  "('k, 'e, 'w) host \<Rightarrow> ('k, 'e, 'w) KeyExchange \<Rightarrow> 'w
    \<Rightarrow> (('e error + unit) \<times> ('k, 'e, 'w) KeyExchange) \<times> 'w" where
  "KeyExchange_init h this w =
     (case global_subtle h of
        Some P \<Rightarrow> ((Inr (), this\<lparr>KeyExchange.subtle := Some P\<rparr>), w)
      | None \<Rightarrow>
          (case node_subtle h of
             Some P \<Rightarrow> ((Inr (), this\<lparr>KeyExchange.subtle := Some P\<rparr>), w)
           | None \<Rightarrow> ((Inl WebCryptoNotAvailable, this), w)))"

definition importAes ::
  "('k, 'e, 'w) KeyExchange \<Rightarrow> bytes \<Rightarrow> 'w \<Rightarrow> ('e error + 'k) \<times> 'w" where
  "importAes this raw w =
     (case KeyExchange.subtle this of
        None \<Rightarrow> (Inl CryptoNotInitializedGetInstance, w)
      | Some P \<Rightarrow>
          (case importKey P ''raw'' raw (AlgLength ''AES-GCM'' 256) False [''encrypt'', ''decrypt''] w of
             (Inl e, w1) \<Rightarrow> (Inl (ProviderError e), w1)
           | (Inr k, w1) \<Rightarrow> (Inr k, w1)))"

definition hkdf ::
  "('k, 'e, 'w) KeyExchange \<Rightarrow> bytes \<Rightarrow> bytes \<Rightarrow> bytes \<Rightarrow> 'w \<Rightarrow> ('e error + bytes) \<times> 'w" where
  "hkdf this sharedSecret info salt w =
     (case KeyExchange.subtle this of
        None \<Rightarrow> (Inl CryptoNotInitializedGetInstance, w)
      | Some P \<Rightarrow>
          (case importKey P ''raw'' sharedSecret (AlgString ''HKDF'') False
                  [''deriveBits'', ''deriveKey''] w of
             (Inl e, w1) \<Rightarrow> (Inl (ProviderError e), w1)
           | (Inr baseKey, w1) \<Rightarrow>
               (case deriveBits P (AlgHkdf ''HKDF'' ''SHA-256'' salt info) baseKey 256 w1 of
                  (Inl e, w2) \<Rightarrow> (Inl (ProviderError e), w2)
                | (Inr raw, w2) \<Rightarrow> (Inr raw, w2))))"

text \<open>The default value of the \<open>salt\<close> parameter of \<open>hkdf\<close>: \<open>new Uint8Array(32)\<close>.\<close>

definition hkdf_default_salt :: bytes where
  "hkdf_default_salt = replicate 32 0"

definition KeyExchange_generateKey ::
  "'k \<Rightarrow> ('k, 'e, 'w) KeyExchange \<Rightarrow> 'w
    \<Rightarrow> (('e error + string) \<times> ('k, 'e, 'w) KeyExchange) \<times> 'w" where
  "KeyExchange_generateKey serverPublicKey this w =
     (case KeyExchange.subtle this of
        None \<Rightarrow> ((Inl CryptoNotInitialized, this), w)
      | Some P \<Rightarrow>
     (case generateKey P (AlgName ''X25519'') False [''deriveKey'', ''deriveBits''] w of
        (Inl e, w1) \<Rightarrow> ((Inl (ProviderError e), this), w1)
      | (Inr kp, w1) \<Rightarrow>
     (let this1 = this\<lparr>KeyExchange.keypair := Some kp\<rparr> in
     (case exportKey P ''raw'' (publicKey kp) w1 of
        (Inl e, w2) \<Rightarrow> ((Inl (ProviderError e), this1), w2)
      | (Inr exported, w2) \<Rightarrow>
     (let publicKxKey = byteArrayToBase64 exported in
     (case deriveBits P (AlgPublic ''X25519'' serverPublicKey) (privateKey kp) 256 w2 of
        (Inl e, w3) \<Rightarrow> ((Inl (ProviderError e), this1), w3)
      | (Inr sharedSecret, w3) \<Rightarrow>
     (case hkdf this1 sharedSecret (TextEncoder_encode (''client-to-server'' @ publicKxKey))
             hkdf_default_salt w3 of
        (Inl err, w4) \<Rightarrow> ((Inl err, this1), w4)
      | (Inr rawTx, w4) \<Rightarrow>
     (case importAes this1 rawTx w4 of
        (Inl err, w5) \<Rightarrow> ((Inl err, this1), w5)
      | (Inr tx, w5) \<Rightarrow>
     (let this2 = this1\<lparr>txKey := Some tx\<rparr> in
     (case hkdf this2 sharedSecret (TextEncoder_encode (''server-to-client'' @ publicKxKey))
             hkdf_default_salt w5 of
        (Inl err, w6) \<Rightarrow> ((Inl err, this2), w6)
      | (Inr rawRx, w6) \<Rightarrow>
     (case importAes this2 rawRx w6 of
        (Inl err, w7) \<Rightarrow> ((Inl err, this2), w7)
      | (Inr rx, w7) \<Rightarrow>
          ((Inr publicKxKey, this2\<lparr>rxKey := Some rx\<rparr>), w7))))))))))))"

definition KeyExchange_encrypt ::
  "('k, 'e, 'w) host \<Rightarrow> data \<Rightarrow> ('k, 'e, 'w) KeyExchange \<Rightarrow> 'w
    \<Rightarrow> (('e error + EncryptionResult) \<times> ('k, 'e, 'w) KeyExchange) \<times> 'w" where
  "KeyExchange_encrypt h plaintext this w =
     (case txKey this of
        None \<Rightarrow> ((Inl NoEncryptionKey, this), w)
      | Some tx \<Rightarrow>
     (case KeyExchange.subtle this of
        None \<Rightarrow> ((Inl CryptoNotInitialized, this), w)
      | Some P \<Rightarrow>
     (case generateRandomBytes h 12 w of
        (Inl err, w1) \<Rightarrow> ((Inl err, this), w1)
      | (Inr iv, w1) \<Rightarrow>
     (case encrypt P (AlgIv ''AES-GCM'' iv) tx (data_bytes plaintext) w1 of
        (Inl e, w2) \<Rightarrow> ((Inl (ProviderError e), this), w2)
      | (Inr encrypted, w2) \<Rightarrow>
          ((Inr \<lparr>ciphertext = encrypted, nonce = iv\<rparr>, this), w2)))))"

definition KeyExchange_decrypt ::
  "bytes \<Rightarrow> bytes \<Rightarrow> ('k, 'e, 'w) KeyExchange \<Rightarrow> 'w
    \<Rightarrow> (('e error + bytes) \<times> ('k, 'e, 'w) KeyExchange) \<times> 'w" where
  "KeyExchange_decrypt ciphertext_arg nonce_arg this w =
     (case rxKey this of
        None \<Rightarrow> ((Inl NoDecryptionKey, this), w)
      | Some rx \<Rightarrow>
     (case KeyExchange.subtle this of
        None \<Rightarrow> ((Inl CryptoNotInitialized, this), w)
      | Some P \<Rightarrow>
     (case decrypt P (AlgIv ''AES-GCM'' nonce_arg) rx ciphertext_arg w of
        (Inl e, w1) \<Rightarrow> ((Inl (ProviderError e), this), w1)
      | (Inr decrypted, w1) \<Rightarrow> ((Inr decrypted, this), w1))))"

text \<open>
  A session with one instance: the methods a caller can invoke, run one after the other.
  \<open>kx_last_handshake\<close> is the instance as the latest \<open>generateKey\<close> call that returned left it;
  \<open>kx_no_torn_handshake\<close> holds when every \<open>generateKey\<close> call of the session either returned
  or threw with the TX slot as it found it.
\<close>

datatype 'k kx_op = KxInit | KxGenerateKey 'k | KxEncrypt data | KxDecrypt bytes bytes

fun kx_step ::
  "('k, 'e, 'w) host \<Rightarrow> 'k kx_op \<Rightarrow> ('k, 'e, 'w) KeyExchange \<Rightarrow> 'w
    \<Rightarrow> ('k, 'e, 'w) KeyExchange \<times> 'w" where
  "kx_step h KxInit this w = (case KeyExchange_init h this w of ((r, t), w1) \<Rightarrow> (t, w1))"
| "kx_step h (KxGenerateKey k) this w =
     (case KeyExchange_generateKey k this w of ((r, t), w1) \<Rightarrow> (t, w1))"
| "kx_step h (KxEncrypt d) this w =
     (case KeyExchange_encrypt h d this w of ((r, t), w1) \<Rightarrow> (t, w1))"
| "kx_step h (KxDecrypt c n) this w =
     (case KeyExchange_decrypt c n this w of ((r, t), w1) \<Rightarrow> (t, w1))"

fun kx_run ::
  "('k, 'e, 'w) host \<Rightarrow> 'k kx_op list \<Rightarrow> ('k, 'e, 'w) KeyExchange \<Rightarrow> 'w
    \<Rightarrow> ('k, 'e, 'w) KeyExchange \<times> 'w" where
  "kx_run h [] this w = (this, w)"
| "kx_run h (operation # ops) this w =
     (case kx_step h operation this w of (t, w1) \<Rightarrow> kx_run h ops t w1)"

fun kx_handshake_returned :: "'k kx_op \<Rightarrow> ('k, 'e, 'w) KeyExchange \<Rightarrow> 'w \<Rightarrow> bool" where
  "kx_handshake_returned (KxGenerateKey k) this w =
     (case KeyExchange_generateKey k this w of
        ((Inl err, t), w1) \<Rightarrow> False
      | ((Inr publicKxKey, t), w1) \<Rightarrow> True)"
| "kx_handshake_returned operation this w = False"

fun kx_last_handshake ::
  "('k, 'e, 'w) host \<Rightarrow> 'k kx_op list \<Rightarrow> ('k, 'e, 'w) KeyExchange \<Rightarrow> 'w
    \<Rightarrow> ('k, 'e, 'w) KeyExchange option \<Rightarrow> ('k, 'e, 'w) KeyExchange option" where
  "kx_last_handshake h [] this w latest = latest"
| "kx_last_handshake h (operation # ops) this w latest =
     (case kx_step h operation this w of
        (t, w1) \<Rightarrow>
          kx_last_handshake h ops t w1 (if kx_handshake_returned operation this w then Some t else latest))"

fun kx_no_torn_handshake ::
  "('k, 'e, 'w) host \<Rightarrow> 'k kx_op list \<Rightarrow> ('k, 'e, 'w) KeyExchange \<Rightarrow> 'w \<Rightarrow> bool" where
  "kx_no_torn_handshake h [] this w = True"
| "kx_no_torn_handshake h (operation # ops) this w =
     (case kx_step h operation this w of
        (t, w1) \<Rightarrow>
          (kx_handshake_returned operation this w \<or> txKey t = txKey this) \<and> kx_no_torn_handshake h ops t w1)"

text \<open>
  The TX and RX slots of an instance against the instance \<open>latest\<close> that the latest returned
  \<open>generateKey\<close> call left: both empty when no call has returned, and otherwise the very
  pair that call installed.
\<close>

definition kx_paired ::
  "('k, 'e, 'w) KeyExchange option \<Rightarrow> ('k, 'e, 'w) KeyExchange \<Rightarrow> bool" where
  "kx_paired latest this =
     (case latest of
        None \<Rightarrow> txKey this = None \<and> rxKey this = None
      | Some handshake \<Rightarrow>
          txKey this = txKey handshake \<and> rxKey this = rxKey handshake
          \<and> txKey handshake \<noteq> None \<and> rxKey handshake \<noteq> None)"

section \<open>Signature (Signature.ts)\<close>

record ('k, 'e, 'w) Signature =
  subtle :: "('k, 'e, 'w) SubtleCrypto option"
  keypair :: "'k CryptoKeyPair option"
  serverPublicKey :: "'k option"

definition new_Signature :: "('k, 'e, 'w) Signature" where
  "new_Signature = \<lparr>Signature.subtle = None, keypair = None, serverPublicKey = None\<rparr>"

definition Signature_init ::
  "('k, 'e, 'w) host \<Rightarrow> ('k, 'e, 'w) Signature \<Rightarrow> 'w
    \<Rightarrow> (('e error + unit) \<times> ('k, 'e, 'w) Signature) \<times> 'w" where
  "Signature_init h this w =
     (case (case global_subtle h of Some P \<Rightarrow> Some P | None \<Rightarrow> node_subtle h) of
        None \<Rightarrow> ((Inl WebCryptoNotAvailable, this), w)
      | Some P \<Rightarrow>
          (let this1 = this\<lparr>Signature.subtle := Some P\<rparr> in
           (case generateKey P (AlgName ''Ed25519'') False [''sign'', ''verify''] w of
              (Inl e, w1) \<Rightarrow> ((Inl (ProviderError e), this1), w1)
            | (Inr kp, w1) \<Rightarrow> ((Inr (), this1\<lparr>Signature.keypair := Some kp\<rparr>), w1))))"

definition initializeServerKey ::
  "string \<Rightarrow> ('k, 'e, 'w) Signature \<Rightarrow> 'w
    \<Rightarrow> (('e error + unit) \<times> ('k, 'e, 'w) Signature) \<times> 'w" where
  "initializeServerKey serverPublicKeyB64 this w =
     (case Signature.subtle this of
        None \<Rightarrow> ((Inl CryptoNotInitialized, this), w)
      | Some P \<Rightarrow>
          (case base64StringToByteArr serverPublicKeyB64 of
             Inl ce \<Rightarrow> ((Inl (CodecError ce), this), w)
           | Inr serverPublicKeyBytes \<Rightarrow>
               (case importKey P ''raw'' serverPublicKeyBytes (AlgName ''Ed25519'') False
                       [''verify''] w of
                  (Inl e, w1) \<Rightarrow> ((Inl (ProviderError e), this), w1)
                | (Inr k, w1) \<Rightarrow> ((Inr (), this\<lparr>serverPublicKey := Some k\<rparr>), w1))))"

definition updateServerKey ::
  "string \<Rightarrow> ('k, 'e, 'w) Signature \<Rightarrow> 'w
    \<Rightarrow> (('e error + unit) \<times> ('k, 'e, 'w) Signature) \<times> 'w" where
  "updateServerKey serverPublicKeyB64 this w =
     (case initializeServerKey serverPublicKeyB64 this w of
        ((Inl err, this1), w1) \<Rightarrow> ((Inl err, this1), w1)
      | ((Inr done, this1), w1) \<Rightarrow> ((Inr (), this1), w1))"

definition getPublicKey ::
  "('k, 'e, 'w) Signature \<Rightarrow> 'w \<Rightarrow> (('e error + string) \<times> ('k, 'e, 'w) Signature) \<times> 'w" where
  "getPublicKey this w =
     (case (Signature.subtle this, Signature.keypair this) of
        (Some P, Some kp) \<Rightarrow>
          (case exportKey P ''raw'' (publicKey kp) w of
             (Inl e, w1) \<Rightarrow> ((Inl (ProviderError e), this), w1)
           | (Inr publicKeyBytes, w1) \<Rightarrow> ((Inr (byteArrayToBase64 publicKeyBytes), this), w1))
      | other \<Rightarrow> ((Inl SignatureNotInitialized, this), w))"

definition Signature_sign ::
  "data \<Rightarrow> ('k, 'e, 'w) Signature \<Rightarrow> 'w
    \<Rightarrow> (('e error + bytes) \<times> ('k, 'e, 'w) Signature) \<times> 'w" where
  "Signature_sign d this w =
     (case (Signature.subtle this, Signature.keypair this) of
        (Some P, Some kp) \<Rightarrow>
          (case sign P (AlgString ''Ed25519'') (privateKey kp) (data_bytes d) w of
             (Inl e, w1) \<Rightarrow> ((Inl (ProviderError e), this), w1)
           | (Inr signature, w1) \<Rightarrow> ((Inr signature, this), w1))
      | other \<Rightarrow> ((Inl SignatureNotInitialized, this), w))"

definition Signature_verify ::
  "bytes \<Rightarrow> data \<Rightarrow> ('k, 'e, 'w) Signature \<Rightarrow> 'w
    \<Rightarrow> (('e error + bool) \<times> ('k, 'e, 'w) Signature) \<times> 'w" where
  "Signature_verify signatureBytes d this w =
     (case (Signature.subtle this, serverPublicKey this) of
        (Some P, Some k) \<Rightarrow>
          (case verify P (AlgString ''Ed25519'') k signatureBytes (data_bytes d) w of
             (Inl e, w1) \<Rightarrow> ((Inl (ProviderError e), this), w1)
           | (Inr valid, w1) \<Rightarrow> ((Inr valid, this), w1))
      | other \<Rightarrow> ((Inl ServerKeyNotInitialized, this), w))"

definition verifyWithKey ::
  "bytes \<Rightarrow> bytes \<Rightarrow> data \<Rightarrow> ('k, 'e, 'w) Signature \<Rightarrow> 'w
    \<Rightarrow> (('e error + bool) \<times> ('k, 'e, 'w) Signature) \<times> 'w" where
  "verifyWithKey publicKeyBytes signatureBytes d this w =
     (case Signature.subtle this of
        None \<Rightarrow> ((Inl CryptoNotInitialized, this), w)
      | Some P \<Rightarrow>
          (case importKey P ''raw'' publicKeyBytes (AlgName ''Ed25519'') False [''verify''] w of
             (Inl e, w1) \<Rightarrow> ((Inl (ProviderError e), this), w1)
           | (Inr k, w1) \<Rightarrow>
               (case verify P (AlgString ''Ed25519'') k signatureBytes (data_bytes d) w1 of
                  (Inl e, w2) \<Rightarrow> ((Inl (ProviderError e), this), w2)
                | (Inr valid, w2) \<Rightarrow> ((Inr valid, this), w2))))"

text \<open>A session with one instance, from the object the constructor returns.\<close>

datatype sig_op =
    SigInit
  | SigInitializeServerKey string
  | SigUpdateServerKey string
  | SigGetPublicKey
  | SigSign data
  | SigVerify bytes data
  | SigVerifyWithKey bytes bytes data

fun sig_step ::
  "('k, 'e, 'w) host \<Rightarrow> sig_op \<Rightarrow> ('k, 'e, 'w) Signature \<Rightarrow> 'w
    \<Rightarrow> ('k, 'e, 'w) Signature \<times> 'w" where
  "sig_step h SigInit this w = (case Signature_init h this w of ((r, t), w1) \<Rightarrow> (t, w1))"
| "sig_step h (SigInitializeServerKey b64) this w =
     (case initializeServerKey b64 this w of ((r, t), w1) \<Rightarrow> (t, w1))"
| "sig_step h (SigUpdateServerKey b64) this w =
     (case updateServerKey b64 this w of ((r, t), w1) \<Rightarrow> (t, w1))"
| "sig_step h SigGetPublicKey this w = (case getPublicKey this w of ((r, t), w1) \<Rightarrow> (t, w1))"
| "sig_step h (SigSign d) this w = (case Signature_sign d this w of ((r, t), w1) \<Rightarrow> (t, w1))"
| "sig_step h (SigVerify s d) this w =
     (case Signature_verify s d this w of ((r, t), w1) \<Rightarrow> (t, w1))"
| "sig_step h (SigVerifyWithKey p s d) this w =
     (case verifyWithKey p s d this w of ((r, t), w1) \<Rightarrow> (t, w1))"

fun sig_run ::
  "('k, 'e, 'w) host \<Rightarrow> sig_op list \<Rightarrow> ('k, 'e, 'w) Signature \<Rightarrow> 'w
    \<Rightarrow> ('k, 'e, 'w) Signature \<times> 'w" where
  "sig_run h [] this w = (this, w)"
| "sig_run h (operation # ops) this w =
     (case sig_step h operation this w of (t, w1) \<Rightarrow> sig_run h ops t w1)"

section \<open>getInstance: the lazy singleton of both classes\<close>

text \<open>
  \<open>getInstance\<close> is an async function: it runs until its first \<open>await\<close>, and is resumed
  later, one segment at a time, while other calls run their segments in between.  The static
  fields \<open>instance\<close> and \<open>initialized\<close> of the class are shared by all calls; an instance is a
  reference into \<open>objects\<close>.  A call is
  \<^item> \<open>NotStarted\<close>: issued, no statement run yet;
  \<^item> \<open>AwaitImport r\<close>: \<open>init\<close> of instance \<open>r\<close> waits for \<open>import('crypto')\<close>;
  \<^item> \<open>AwaitGenerateKey r g\<close>: \<open>init\<close> of instance \<open>r\<close> waits for the provider's call number \<open>g\<close> of
    \<open>generateKey\<close>;
  \<^item> \<open>AwaitInit r\<close>: \<open>init\<close> of instance \<open>r\<close> has returned and \<open>getInstance\<close> waits at
    \<open>await this.instance.init()\<close>;
  \<^item> \<open>Resolved x\<close>: \<open>getInstance\<close> has returned \<open>this.instance\<close>, which was \<open>x\<close>.
  \<open>acquisitions\<close> counts the executions of \<open>this.subtle = ...\<close>, \<open>generateKey_calls\<close> the calls
  of the provider's \<open>generateKey\<close>.  The provider and the import succeed.
\<close>

datatype singleton_class = SignatureClass | KeyExchangeClass

datatype runtime = Browser | NodeJs

datatype call =
    NotStarted
  | AwaitImport nat
  | AwaitGenerateKey nat nat
  | AwaitInit nat
  | Resolved "nat option"

record instance_fields =
  has_subtle :: bool
  generated_keypair :: "nat option"

record singleton =
  static_instance :: "nat option"
  static_initialized :: bool
  objects :: "instance_fields list"
  acquisitions :: nat
  generateKey_calls :: nat
  calls :: "call list"

definition modify :: "nat \<Rightarrow> ('a \<Rightarrow> 'a) \<Rightarrow> 'a list \<Rightarrow> 'a list" where
  "modify i f xs = (if i < length xs then xs[i := f (xs ! i)] else xs)"

definition acquire_subtle :: "nat \<Rightarrow> singleton \<Rightarrow> singleton" where
  "acquire_subtle r s =
     s\<lparr>objects := modify r (\<lambda>obj. obj\<lparr>has_subtle := True\<rparr>) (objects s),
       acquisitions := Suc (acquisitions s)\<rparr>"

text \<open>The rest of \<open>init\<close> once \<open>this.subtle\<close> is set: \<open>Signature\<close> calls \<open>generateKey\<close> and
  waits for it, \<open>KeyExchange\<close> returns.\<close>

definition after_subtle :: "singleton_class \<Rightarrow> nat \<Rightarrow> nat \<Rightarrow> singleton \<Rightarrow> singleton" where
  "after_subtle cls r i s =
     (case cls of
        SignatureClass \<Rightarrow>
          s\<lparr>generateKey_calls := Suc (generateKey_calls s),
            calls := (calls s)[i := AwaitGenerateKey r (generateKey_calls s)]\<rparr>
      | KeyExchangeClass \<Rightarrow> s\<lparr>calls := (calls s)[i := AwaitInit r]\<rparr>)"

definition advance :: "singleton_class \<Rightarrow> runtime \<Rightarrow> nat \<Rightarrow> singleton \<Rightarrow> singleton" where
  "advance cls rt i s =
     (if i \<ge> length (calls s) then s
      else (case calls s ! i of
              NotStarted \<Rightarrow>
                (if static_initialized s
                 then s\<lparr>calls := (calls s)[i := Resolved (static_instance s)]\<rparr>
                 else
                   (let r = length (objects s);
                        s1 = s\<lparr>static_instance := Some r,
                               objects := objects s @ [\<lparr>has_subtle = False, generated_keypair = None\<rparr>]\<rparr>
                    in (case rt of
                          Browser \<Rightarrow> after_subtle cls r i (acquire_subtle r s1)
                        | NodeJs \<Rightarrow> s1\<lparr>calls := (calls s1)[i := AwaitImport r]\<rparr>)))
            | AwaitImport r \<Rightarrow> after_subtle cls r i (acquire_subtle r s)
            | AwaitGenerateKey r g \<Rightarrow>
                s\<lparr>objects := modify r (\<lambda>obj. obj\<lparr>generated_keypair := Some g\<rparr>) (objects s),
                  calls := (calls s)[i := AwaitInit r]\<rparr>
            | AwaitInit r \<Rightarrow>
                s\<lparr>static_initialized := True,
                  calls := (calls s)[i := Resolved (static_instance s)]\<rparr>
            | Resolved x \<Rightarrow> s))"

fun run_schedule :: "singleton_class \<Rightarrow> runtime \<Rightarrow> nat list \<Rightarrow> singleton \<Rightarrow> singleton" where
  "run_schedule cls rt [] s = s"
| "run_schedule cls rt (i # schedule) s = run_schedule cls rt schedule (advance cls rt i s)"

definition first_access :: "nat \<Rightarrow> singleton" where
  "first_access n =
     \<lparr>static_instance = None, static_initialized = False, objects = [], acquisitions = 0,
      generateKey_calls = 0, calls = replicate n NotStarted\<rparr>"

section \<open>Test doubles (tests/KeyExchange.test.ts, tests/Signature.test.ts)\<close>

text \<open>
  A provider in the manner of the \<open>mockSubtle\<close> of the test suites: key handles are numbers,
  the provider's state counts its calls, and \<open>reject_at = Some n\<close> makes the call number \<open>n\<close>
  reject, as \<open>mockRejectedValueOnce\<close> does.  \<open>decrypt\<close> rejects a ciphertext whose last byte is
  not the tag that \<open>encrypt\<close> appends for the key; \<open>verify\<close> accepts what \<open>sign\<close> returns for
  the key.
\<close>

definition mockSubtle :: "nat option \<Rightarrow> (nat, string, nat) SubtleCrypto" where
  "mockSubtle reject_at =
     \<lparr>generateKey = (\<lambda>alg extractable usages w.
        if reject_at = Some w then (Inl ''OperationError'', Suc w)
        else (Inr \<lparr>publicKey = 2 * w, privateKey = 2 * w + 1\<rparr>, Suc w)),
      deriveBits = (\<lambda>alg k n w.
        if reject_at = Some w then (Inl ''OperationError'', Suc w)
        else (Inr (replicate (n div 8) (of_nat (k + w))), Suc w)),
      importKey = (\<lambda>format keyData alg extractable usages w.
        if reject_at = Some w then (Inl ''DataError'', Suc w) else (Inr (100 + w), Suc w)),
      exportKey = (\<lambda>format k w.
        if reject_at = Some w then (Inl ''InvalidAccessError'', Suc w)
        else (Inr (replicate 32 (of_nat k)), Suc w)),
      encrypt = (\<lambda>alg k d w.
        if reject_at = Some w then (Inl ''OperationError'', Suc w)
        else (Inr (d @ [of_nat k]), Suc w)),
      decrypt = (\<lambda>alg k d w.
        if reject_at = Some w \<or> d = [] \<or> last d \<noteq> of_nat k then (Inl ''OperationError'', Suc w)
        else (Inr (butlast d), Suc w)),
      sign = (\<lambda>alg k d w.
        if reject_at = Some w then (Inl ''OperationError'', Suc w)
        else (Inr (of_nat k # d), Suc w)),
      verify = (\<lambda>alg k s d w.
        if reject_at = Some w then (Inl ''OperationError'', Suc w)
        else (Inr (s = of_nat k # d), Suc w))\<rparr>"

definition mockHost :: "nat option \<Rightarrow> (nat, string, nat) host" where
  "mockHost reject_at =
     \<lparr>global_subtle = Some (mockSubtle reject_at),
      node_subtle = None,
      random_source = (\<lambda>n w. (Inr (replicate n (of_nat w)), Suc w))\<rparr>"

section \<open>Properties of the codec layer\<close>

subsection \<open>Base64 of eight bytes\<close>

lemma b64_char_table:
  "\<forall>i \<in> set [0..<64]. b64_index (b64_char i) = Some i \<and> \<not> is_ascii_whitespace (b64_char i)
      \<and> b64_char i \<noteq> CHR ''=''"
  by code_simp

lemma b64_char_index [simp]: "i < 64 \<Longrightarrow> b64_index (b64_char i) = Some i"
  and b64_char_not_space [simp]: "i < 64 \<Longrightarrow> \<not> is_ascii_whitespace (b64_char i)"
  and b64_char_not_pad [simp]: "i < 64 \<Longrightarrow> b64_char i \<noteq> CHR ''=''"
  using b64_char_table by auto

lemma pad_not_space [simp]: "\<not> is_ascii_whitespace CHR ''=''"
  by (simp add: is_ascii_whitespace_def)

lemma byte_bound: "unat (a :: byte) < 256"
  using unsigned_less [of a, where 'a = nat] by simp

lemma sextet_bounds:
  fixes x y :: nat
  shows "x < 256 \<Longrightarrow> x div 4 < 64"
    and "y < 256 \<Longrightarrow> x mod 4 * 16 + y div 16 < 64"
    and "y < 256 \<Longrightarrow> x mod 16 * 4 + y div 64 < 64"
    and "x mod 64 < 64" and "x mod 16 * 4 < 64" and "x mod 4 * 16 < 64"
proof -
  have "x mod 4 * 16 \<le> 48" "x mod 16 * 4 \<le> 60" by simp_all
  moreover have "y < 256 \<Longrightarrow> y div 16 < 16" "y < 256 \<Longrightarrow> y div 64 < 4" by simp_all
  ultimately show "y < 256 \<Longrightarrow> x mod 4 * 16 + y div 16 < 64"
    "y < 256 \<Longrightarrow> x mod 16 * 4 + y div 64 < 64" "x mod 16 * 4 < 64" "x mod 4 * 16 < 64"
    by linarith+
qed simp_all

lemma regroup_first:
  fixes x y :: nat
  assumes "y < 256"
  shows "x div 4 * 4 + (x mod 4 * 16 + y div 16) div 16 = x"
proof -
  have "y div 16 < 16" using assms by simp
  then have "(x mod 4 * 16 + y div 16) div 16 = x mod 4" by simp
  then show ?thesis by simp
qed

lemma regroup_second:
  fixes x y z :: nat
  assumes "y < 256" "z < 256"
  shows "(x mod 4 * 16 + y div 16) mod 16 * 16 + (y mod 16 * 4 + z div 64) div 4 = y"
proof -
  have "y div 16 < 16" using assms by simp
  then have hi: "(x mod 4 * 16 + y div 16) mod 16 = y div 16" by simp
  have "z div 64 < 4" using assms by simp
  then have lo: "(y mod 16 * 4 + z div 64) div 4 = y mod 16" by simp
  show ?thesis unfolding hi lo by simp
qed

lemma regroup_third:
  fixes y z :: nat
  assumes "z < 256"
  shows "(y mod 16 * 4 + z div 64) mod 4 * 64 + z mod 64 = z"
proof -
  have "z div 64 < 4" using assms by simp
  then have hi: "(y mod 16 * 4 + z div 64) mod 4 = z div 64" by simp
  show ?thesis unfolding hi by simp
qed

lemma regroup_second_tail:
  fixes x y :: nat
  assumes "y < 256"
  shows "(x mod 4 * 16 + y div 16) mod 16 * 16 + (y mod 16 * 4) div 4 = y"
proof -
  have "y div 16 < 16" using assms by simp
  then have hi: "(x mod 4 * 16 + y div 16) mod 16 = y div 16" by simp
  show ?thesis unfolding hi by simp
qed

lemma decode_chars:
  assumes "s0 < 64" "s1 < 64" "s2 < 64" "s3 < 64" "s4 < 64" "s5 < 64" "s6 < 64" "s7 < 64"
    "s8 < 64" "s9 < 64" "s10 < 64"
  shows "base64_decode [b64_char s0, b64_char s1, b64_char s2, b64_char s3, b64_char s4,
      b64_char s5, b64_char s6, b64_char s7, b64_char s8, b64_char s9, b64_char s10, CHR ''='']
    = Some (decode_sextets [s0, s1, s2, s3, s4, s5, s6, s7, s8, s9, s10])"
  using assms by (simp add: base64_decode_def strip_padding_def)

lemma base64_roundtrip8:
  fixes a b c d e f g h :: byte
  shows "base64_decode (base64_encode [a, b, c, d, e, f, g, h]) = Some [a, b, c, d, e, f, g, h]"
proof -
  have "base64_decode (base64_encode [a, b, c, d, e, f, g, h]) =
    Some (decode_sextets [unat a div 4, unat a mod 4 * 16 + unat b div 16,
      unat b mod 16 * 4 + unat c div 64, unat c mod 64,
      unat d div 4, unat d mod 4 * 16 + unat e div 16,
      unat e mod 16 * 4 + unat f div 64, unat f mod 64,
      unat g div 4, unat g mod 4 * 16 + unat h div 16, unat h mod 16 * 4])"
    unfolding base64_encode.simps append.simps
    by (rule decode_chars) (simp_all add: sextet_bounds byte_bound)
  also have "\<dots> = Some [a, b, c, d, e, f, g, h]"
    by (simp only: decode_sextets.simps append.simps regroup_first [OF byte_bound]
        regroup_second [OF byte_bound byte_bound] regroup_third [OF byte_bound]
        regroup_second_tail [OF byte_bound]) simp
  finally show ?thesis .
qed

lemma base64_encode8_not_empty: "base64_encode [a, b, c, d, e, f, g, h] \<noteq> []"
  by simp

subsection \<open>Big-endian bytes of a uint64\<close>

lemma div_step:
  fixes x m :: int
  assumes "0 < m"
  shows "x div (m * 256) * 256 + x div m mod 256 = x div m"
proof -
  have "x div (m * 256) = (x div m) div 256"
    using assms by (simp add: zdiv_zmult2_eq)
  then show ?thesis by simp
qed

lemma getBigUint64_setBigUint64:
  assumes "0 \<le> n" "n < 2 ^ 64"
  shows "getBigUint64 (setBigUint64 n) = n"
proof -
  have top: "n div 72057594037927936 mod 256 = n div 72057594037927936"
    using assms by simp
  have s6: "n div 72057594037927936 * 256 + n div 281474976710656 mod 256 = n div 281474976710656"
    using div_step [of 281474976710656 n] by simp
  have s5: "n div 281474976710656 * 256 + n div 1099511627776 mod 256 = n div 1099511627776"
    using div_step [of 1099511627776 n] by simp
  have s4: "n div 1099511627776 * 256 + n div 4294967296 mod 256 = n div 4294967296"
    using div_step [of 4294967296 n] by simp
  have s3: "n div 4294967296 * 256 + n div 16777216 mod 256 = n div 16777216"
    using div_step [of 16777216 n] by simp
  have s2: "n div 16777216 * 256 + n div 65536 mod 256 = n div 65536"
    using div_step [of 65536 n] by simp
  have s1: "n div 65536 * 256 + n div 256 mod 256 = n div 256"
    using div_step [of 256 n] by simp
  have s0: "n div 256 * 256 + n mod 256 = n"
    by simp
  show ?thesis
    by (simp add: getBigUint64_def setBigUint64_def uint_word_of_int top s6 s5 s4 s3 s2 s1 s0)
qed

lemma base64ToBigInt_encode:
  assumes "0 \<le> n" "n < 2 ^ 64"
  shows "base64ToBigInt (base64_encode (setBigUint64 n)) = Inr n"
proof -
  obtain a b c d e f g h where bs: "setBigUint64 n = [a, b, c, d, e, f, g, h]"
    by (simp add: setBigUint64_def)
  have "base64ToBigInt (base64_encode [a, b, c, d, e, f, g, h]) =
      Inr (getBigUint64 [a, b, c, d, e, f, g, h])"
    unfolding base64ToBigInt_def base64_roundtrip8
    using base64_encode8_not_empty [of a b c d e f g h] by simp
  then show ?thesis
    using getBigUint64_setBigUint64 [OF assms] by (simp add: bs)
qed

text \<open>
  Claim C6.  For every integer \<open>n\<close> with \<open>0 \<le> n \<le> 2^64 - 1\<close>, \<open>bigIntToBase64\<close> returns a
  string and \<open>base64ToBigInt\<close> of that string is \<open>n\<close>; for every \<open>n < 0\<close> and every
  \<open>n > 2^64 - 1\<close>, \<open>bigIntToBase64\<close> throws the RangeError.
\<close>

theorem bigInt_base64_roundtrip:
  "(0 \<le> n \<and> n \<le> 2 ^ 64 - 1 \<longrightarrow>
      (case bigIntToBase64 n of Inl err \<Rightarrow> Inl err | Inr b64 \<Rightarrow> base64ToBigInt b64) = Inr n)
   \<and> (n < 0 \<or> n > 2 ^ 64 - 1 \<longrightarrow> bigIntToBase64 n = Inl RangeError_uint64)"
proof (intro conjI impI)
  assume "0 \<le> n \<and> n \<le> 2 ^ 64 - 1"
  then have r: "0 \<le> n" "n < 2 ^ 64" by simp_all
  then have "bigIntToBase64 n = Inr (base64_encode (setBigUint64 n))"
    by (simp add: bigIntToBase64_def)
  then show "(case bigIntToBase64 n of Inl err \<Rightarrow> Inl err | Inr b64 \<Rightarrow> base64ToBigInt b64) = Inr n"
    using base64ToBigInt_encode [OF r] by simp
next
  assume "n < 0 \<or> n > 2 ^ 64 - 1"
  then show "bigIntToBase64 n = Inl RangeError_uint64"
    by (auto simp add: bigIntToBase64_def)
qed

theorem bigInt_base64_roundtrip_witness:
  "(0::int) \<le> 1 \<and> (1::int) \<le> 2 ^ 64 - 1
   \<and> (case bigIntToBase64 1 of Inl err \<Rightarrow> Inl err | Inr b64 \<Rightarrow> base64ToBigInt b64) = Inr 1
   \<and> (18446744073709551616::int) > 2 ^ 64 - 1
   \<and> bigIntToBase64 18446744073709551616 = Inl RangeError_uint64
   \<and> (-1::int) < 0 \<and> bigIntToBase64 (-1) = Inl RangeError_uint64"
  using bigInt_base64_roundtrip [of 1] bigInt_base64_roundtrip [of 18446744073709551616]
    bigInt_base64_roundtrip [of "-1"]
  by simp

text \<open>
  Claim C7.  The encodings are big-endian, with the fixed vectors
  \<open>bigIntToBase64(1) = "AAAAAAAAAAE="\<close> and \<open>bigIntToBase64(2^64 - 1) = "//////////8="\<close>;
  \<open>uint32ToBase64(0xFFFFFFFF)\<close> is decoded by \<open>base64ToUint32\<close> back to \<open>0xFFFFFFFF\<close>, and
  \<open>uint32ToBase64\<close> throws on \<open>0x100000000\<close>.
\<close>

theorem fixed_vectors:
  "bigIntToBase64 1 = Inr ''AAAAAAAAAAE=''
   \<and> bigIntToBase64 (2 ^ 64 - 1) = Inr ''//////////8=''
   \<and> (case uint32ToBase64 0xFFFFFFFF of Inl err \<Rightarrow> Inl err | Inr b64 \<Rightarrow> base64ToUint32 b64)
       = Inr 0xFFFFFFFF
   \<and> uint32ToBase64 0x100000000 = Inl NotUint32"
  by code_simp

subsection \<open>Copying into a buffer\<close>








section \<open>Properties of KeyExchange\<close>

subsection \<open>The test doubles, evaluated\<close>

lemma mockSubtle_simps [simp]:
  "generateKey (mockSubtle r) alg ex us w =
     (if r = Some w then (Inl ''OperationError'', Suc w)
      else (Inr \<lparr>publicKey = 2 * w, privateKey = 2 * w + 1\<rparr>, Suc w))"
  "deriveBits (mockSubtle r) alg k n w =
     (if r = Some w then (Inl ''OperationError'', Suc w)
      else (Inr (replicate (n div 8) (of_nat (k + w))), Suc w))"
  "importKey (mockSubtle r) fmt keyData alg ex us w =
     (if r = Some w then (Inl ''DataError'', Suc w) else (Inr (100 + w), Suc w))"
  "exportKey (mockSubtle r) fmt k w =
     (if r = Some w then (Inl ''InvalidAccessError'', Suc w)
      else (Inr (replicate 32 (of_nat k)), Suc w))"
  "encrypt (mockSubtle r) alg k d w =
     (if r = Some w then (Inl ''OperationError'', Suc w) else (Inr (d @ [of_nat k]), Suc w))"
  "decrypt (mockSubtle r) alg k d w =
     (if r = Some w \<or> d = [] \<or> last d \<noteq> of_nat k then (Inl ''OperationError'', Suc w)
      else (Inr (butlast d), Suc w))"
  "sign (mockSubtle r) alg k d w =
     (if r = Some w then (Inl ''OperationError'', Suc w) else (Inr (of_nat k # d), Suc w))"
  "verify (mockSubtle r) alg k s d w =
     (if r = Some w then (Inl ''OperationError'', Suc w) else (Inr (s = of_nat k # d), Suc w))"
  by (simp_all add: mockSubtle_def)

lemma mockHost_simps [simp]:
  "global_subtle (mockHost r) = Some (mockSubtle r)"
  "node_subtle (mockHost r) = None"
  "random_source (mockHost r) n w = (Inr (replicate n (of_nat w)), Suc w)"
  by (simp_all add: mockHost_def)

subsection \<open>generateKey\<close>



subsection \<open>TX and RX as a pair\<close>

lemma generateKey_returned:
  assumes "KeyExchange_generateKey k this w = ((Inr pk, t), w1)"
  shows "txKey t \<noteq> None \<and> rxKey t \<noteq> None"
  using assms
  by (auto simp add: KeyExchange_generateKey_def Let_def
      split: option.splits prod.splits sum.splits)

lemma generateKey_threw:
  assumes "KeyExchange_generateKey k this w = ((Inl err, t), w1)"
  shows "rxKey t = rxKey this"
  using assms
  by (auto simp add: KeyExchange_generateKey_def Let_def
      split: option.splits prod.splits sum.splits)

lemma kx_step_other:
  assumes "\<And>k. operation \<noteq> KxGenerateKey k"
  shows "txKey (fst (kx_step h operation this w)) = txKey this
    \<and> rxKey (fst (kx_step h operation this w)) = rxKey this"
  using assms
  by (cases operation)
    (auto simp add: KeyExchange_init_def KeyExchange_encrypt_def KeyExchange_decrypt_def
      generateRandomBytes_def split: option.splits prod.splits sum.splits)

lemma kx_step_paired:
  assumes "kx_paired latest this"
    and "kx_step h operation this w = (t, w1)"
    and "kx_handshake_returned operation this w \<or> txKey t = txKey this"
  shows "kx_paired (if kx_handshake_returned operation this w then Some t else latest) t"
proof (cases operation)
  case (KxGenerateKey k)
  obtain r t' w' where run: "KeyExchange_generateKey k this w = ((r, t'), w')"
    by (metis surj_pair)
  with assms(2) KxGenerateKey have t: "t' = t" by simp
  show ?thesis
  proof (cases r)
    case (Inl err)
    then have "\<not> kx_handshake_returned operation this w"
      using KxGenerateKey run by simp
    moreover have "rxKey t = rxKey this"
      using generateKey_threw [of k this w err t w'] run Inl t by simp
    ultimately show ?thesis
      using assms(1,3) by (simp add: kx_paired_def split: option.splits)
  next
    case (Inr pk)
    then have "kx_handshake_returned operation this w"
      using KxGenerateKey run by simp
    moreover have "txKey t \<noteq> None \<and> rxKey t \<noteq> None"
      using generateKey_returned [of k this w pk t w'] run Inr t by simp
    ultimately show ?thesis by (simp add: kx_paired_def)
  qed
next
  case KxInit
  then show ?thesis
    using assms(1,2) kx_step_other [of operation h this w]
    by (simp add: kx_paired_def split: option.splits)
next
  case (KxEncrypt d)
  then show ?thesis
    using assms(1,2) kx_step_other [of operation h this w]
    by (simp add: kx_paired_def split: option.splits)
next
  case (KxDecrypt c n)
  then show ?thesis
    using assms(1,2) kx_step_other [of operation h this w]
    by (simp add: kx_paired_def split: option.splits)
qed

lemma kx_run_paired:
  assumes "kx_paired latest this" and "kx_no_torn_handshake h ops this w"
  shows "kx_paired (kx_last_handshake h ops this w latest) (fst (kx_run h ops this w))"
  using assms
proof (induction ops arbitrary: this w latest)
  case Nil
  then show ?case by simp
next
  case (Cons operation ops)
  obtain t w1 where st: "kx_step h operation this w = (t, w1)"
    by (cases "kx_step h operation this w")
  from Cons.prems(2) st
  have ok: "kx_handshake_returned operation this w \<or> txKey t = txKey this"
    and rest: "kx_no_torn_handshake h ops t w1"
    by simp_all
  have "kx_paired (if kx_handshake_returned operation this w then Some t else latest) t"
    using kx_step_paired [OF Cons.prems(1) st ok] .
  from Cons.IH [OF this rest] show ?case by (simp add: st)
qed

lemma kx_paired_new: "kx_paired None new_KeyExchange"
  by (simp add: kx_paired_def new_KeyExchange_def)




subsection \<open>encrypt and decrypt\<close>

lemma kx_step_rx:
  assumes "kx_step h operation this w = (t, w1)"
    and "(latest = None) = (rxKey this = None)"
  shows "((if kx_handshake_returned operation this w then Some t else latest) = None)
    = (rxKey t = None)"
proof (cases operation)
  case (KxGenerateKey k)
  obtain r t' w' where run: "KeyExchange_generateKey k this w = ((r, t'), w')"
    by (metis surj_pair)
  with assms(1) KxGenerateKey have t: "t' = t" by simp
  show ?thesis
  proof (cases r)
    case (Inl err)
    then have "rxKey t = rxKey this"
      using generateKey_threw [of k this w err t w'] run t by simp
    then show ?thesis using KxGenerateKey run Inl assms(2) by simp
  next
    case (Inr pk)
    then have "rxKey t \<noteq> None"
      using generateKey_returned [of k this w pk t w'] run t by simp
    then show ?thesis using KxGenerateKey run Inr by simp
  qed
next
  case KxInit
  then show ?thesis using assms kx_step_other [of operation h this w] by simp
next
  case (KxEncrypt d)
  then show ?thesis using assms kx_step_other [of operation h this w] by simp
next
  case (KxDecrypt c n)
  then show ?thesis using assms kx_step_other [of operation h this w] by simp
qed

lemma kx_run_rx:
  assumes "(latest = None) = (rxKey this = None)"
  shows "(kx_last_handshake h ops this w latest = None) = (rxKey (fst (kx_run h ops this w)) = None)"
  using assms
proof (induction ops arbitrary: this w latest)
  case Nil
  then show ?case by simp
next
  case (Cons operation ops)
  obtain t w1 where st: "kx_step h operation this w = (t, w1)"
    by (cases "kx_step h operation this w")
  show ?case
    using Cons.IH [OF kx_step_rx [OF st Cons.prems]] by (simp add: st)
qed

text \<open>
  Claim C4, as the code has it.  \<open>encrypt\<close> fails with the no-encryption-key error if and
  only if no TX key is installed, and \<open>decrypt\<close> fails with the no-decryption-key error if
  and only if no RX key is installed.  In every state of a session no RX key is installed if
  and only if no \<open>generateKey\<close> call has returned; for the TX key this holds in the sessions
  in which each \<open>generateKey\<close> call either returned or threw with the TX slot as it found it.
  With an RX key (and the capability handle) present, a rejection that the provider raises
  during \<open>decrypt\<close>, such as the failure of the AEAD tag, reaches the caller as the provider
  raised it; no plaintext is returned.
\<close>

theorem key_guards:
  "(fst (fst (KeyExchange_encrypt h plaintext this w)) = Inl NoEncryptionKey \<longleftrightarrow> txKey this = None)
   \<and> (fst (fst (KeyExchange_decrypt ct iv this w)) = Inl NoDecryptionKey \<longleftrightarrow> rxKey this = None)
   \<and> (rxKey (fst (kx_run h ops new_KeyExchange w0)) = None
        \<longleftrightarrow> kx_last_handshake h ops new_KeyExchange w0 None = None)
   \<and> (kx_no_torn_handshake h ops new_KeyExchange w0 \<longrightarrow>
        (txKey (fst (kx_run h ops new_KeyExchange w0)) = None
          \<longleftrightarrow> kx_last_handshake h ops new_KeyExchange w0 None = None))
   \<and> (rxKey this = Some rx \<and> KeyExchange.subtle this = Some P
        \<and> decrypt P (AlgIv ''AES-GCM'' iv) rx ct w = (Inl e, w1) \<longrightarrow>
       KeyExchange_decrypt ct iv this w = ((Inl (ProviderError e), this), w1))"
proof -
  have enc: "fst (fst (KeyExchange_encrypt h plaintext this w)) = Inl NoEncryptionKey
      \<longleftrightarrow> txKey this = None"
    by (auto simp add: KeyExchange_encrypt_def generateRandomBytes_def
        split: option.splits prod.splits sum.splits)
  have dec: "fst (fst (KeyExchange_decrypt ct iv this w)) = Inl NoDecryptionKey
      \<longleftrightarrow> rxKey this = None"
    by (auto simp add: KeyExchange_decrypt_def split: option.splits prod.splits sum.splits)
  have rx: "rxKey (fst (kx_run h ops new_KeyExchange w0)) = None
      \<longleftrightarrow> kx_last_handshake h ops new_KeyExchange w0 None = None"
    using kx_run_rx [of None new_KeyExchange h ops w0] by (simp add: new_KeyExchange_def)
  have tx: "kx_no_torn_handshake h ops new_KeyExchange w0 \<longrightarrow>
      (txKey (fst (kx_run h ops new_KeyExchange w0)) = None
        \<longleftrightarrow> kx_last_handshake h ops new_KeyExchange w0 None = None)"
  proof
    assume "kx_no_torn_handshake h ops new_KeyExchange w0"
    then have "kx_paired (kx_last_handshake h ops new_KeyExchange w0 None)
        (fst (kx_run h ops new_KeyExchange w0))"
      using kx_run_paired [OF kx_paired_new, of h ops w0] by simp
    then show "txKey (fst (kx_run h ops new_KeyExchange w0)) = None
        \<longleftrightarrow> kx_last_handshake h ops new_KeyExchange w0 None = None"
      by (auto simp add: kx_paired_def split: option.splits)
  qed
  have passed_on: "rxKey this = Some rx \<and> KeyExchange.subtle this = Some P
        \<and> decrypt P (AlgIv ''AES-GCM'' iv) rx ct w = (Inl e, w1) \<longrightarrow>
       KeyExchange_decrypt ct iv this w = ((Inl (ProviderError e), this), w1)"
    by (simp add: KeyExchange_decrypt_def)
  show ?thesis
    using enc dec rx tx passed_on by (intro conjI)
qed

theorem key_guards_witness:
  "txKey (new_KeyExchange :: (nat, string, nat) KeyExchange) = None
   \<and> fst (fst (KeyExchange_encrypt (mockHost None) (Text ''hi'')
        (new_KeyExchange :: (nat, string, nat) KeyExchange) 0)) = Inl NoEncryptionKey
   \<and> rxKey (new_KeyExchange :: (nat, string, nat) KeyExchange) = None
   \<and> fst (fst (KeyExchange_decrypt [1, 2] [0]
        (new_KeyExchange :: (nat, string, nat) KeyExchange) 0)) = Inl NoDecryptionKey
   \<and> kx_no_torn_handshake (mockHost None) [KxInit, KxGenerateKey 7] new_KeyExchange 0
   \<and> txKey (fst (kx_run (mockHost None) [KxInit, KxGenerateKey 7] new_KeyExchange 0)) = Some 105
   \<and> rxKey (fst (kx_run (mockHost None) [KxInit, KxGenerateKey 7] new_KeyExchange 0)) = Some 108
   \<and> kx_last_handshake (mockHost None) [KxInit, KxGenerateKey 7] new_KeyExchange 0 None \<noteq> None
   \<and> decrypt (mockSubtle None) (AlgIv ''AES-GCM'' [0]) 108 [1, 2] 9 = (Inl ''OperationError'', 10)
   \<and> KeyExchange_decrypt [1, 2] [0]
        \<lparr>KeyExchange.subtle = Some (mockSubtle None),
         keypair = Some \<lparr>publicKey = 0, privateKey = 1\<rparr>, txKey = Some 105, rxKey = Some 108\<rparr> 9
      = ((Inl (ProviderError ''OperationError''),
          \<lparr>KeyExchange.subtle = Some (mockSubtle None),
           keypair = Some \<lparr>publicKey = 0, privateKey = 1\<rparr>, txKey = Some 105, rxKey = Some 108\<rparr>),
         10)"
  using key_guards [where h = "mockHost None" and plaintext = "Text ''hi''"
      and this = "new_KeyExchange :: (nat, string, nat) KeyExchange" and w = 0
      and ct = "[1, 2]" and iv = "[0]" and rx = 0 and P = "mockSubtle None"
      and e = "''OperationError''" and ?w1.0 = 0 and ops = "[KxInit, KxGenerateKey 7]"
      and ?w0.0 = 0]
    key_guards [where h = "mockHost None" and plaintext = "Text ''hi''"
      and this = "\<lparr>KeyExchange.subtle = Some (mockSubtle None),
        keypair = Some \<lparr>publicKey = 0, privateKey = 1\<rparr>, txKey = Some 105, rxKey = Some 108\<rparr>"
      and w = 9 and ct = "[1, 2]" and iv = "[0]" and rx = 108 and P = "mockSubtle None"
      and e = "''OperationError''" and ?w1.0 = 10 and ops = "[]" and ?w0.0 = 0]
  by (simp add: new_KeyExchange_def KeyExchange_init_def KeyExchange_generateKey_def hkdf_def
      importAes_def)

lemma replicate12: "replicate 12 x = [x, x, x, x, x, x, x, x, x, x, x, x]"
  by (simp add: numeral_eq_Suc)

text \<open>
  Claim C4, as the specification states it, fails on the code for \<open>encrypt\<close>: after a first
  \<open>generateKey\<close> call that the provider made fail while the RX secret was derived, no
  handshake has completed, and yet \<open>encrypt\<close> does not fail: it encrypts under the TX key
  that the failed call left behind.
\<close>

theorem encrypt_after_failed_handshake_counterexample:
  "kx_last_handshake (mockHost (Some 7)) [KxInit, KxGenerateKey 7] new_KeyExchange 0 None = None
   \<and> fst (fst (KeyExchange_encrypt (mockHost (Some 7)) (Text ''hi'')
        (fst (kx_run (mockHost (Some 7)) [KxInit, KxGenerateKey 7] new_KeyExchange 0)) 8))
      = Inr \<lparr>ciphertext = [104, 105, 105], nonce = [8, 8, 8, 8, 8, 8, 8, 8, 8, 8, 8, 8]\<rparr>"
  by (simp add: KeyExchange_init_def new_KeyExchange_def KeyExchange_generateKey_def hkdf_def
      importAes_def KeyExchange_encrypt_def generateRandomBytes_def TextEncoder_encode_def
      replicate12)

section \<open>Properties of Signature\<close>

lemma sig_step_server_key:
  assumes "serverPublicKey this \<noteq> None \<longrightarrow> Signature.subtle this \<noteq> None"
  shows "serverPublicKey (fst (sig_step h operation this w)) \<noteq> None \<longrightarrow>
    Signature.subtle (fst (sig_step h operation this w)) \<noteq> None"
  using assms
  by (cases operation)
    (auto simp add: Signature_init_def initializeServerKey_def updateServerKey_def
      getPublicKey_def Signature_sign_def Signature_verify_def verifyWithKey_def Let_def
      split: option.splits prod.splits sum.splits)

lemma sig_run_server_key:
  assumes "serverPublicKey this \<noteq> None \<longrightarrow> Signature.subtle this \<noteq> None"
  shows "serverPublicKey (fst (sig_run h ops this w)) \<noteq> None \<longrightarrow>
    Signature.subtle (fst (sig_run h ops this w)) \<noteq> None"
  using assms
proof (induction ops arbitrary: this w)
  case Nil
  then show ?case by simp
next
  case (Cons operation ops)
  obtain t w1 where st: "sig_step h operation this w = (t, w1)"
    by (cases "sig_step h operation this w")
  have "serverPublicKey t \<noteq> None \<longrightarrow> Signature.subtle t \<noteq> None"
    using sig_step_server_key [OF Cons.prems, of h operation w] by (simp add: st)
  then show ?case using Cons.IH [of t w1] by (simp add: st)
qed

lemma decode_AAAA: "base64StringToByteArr ''AAAA'' = Inr [0, 0, 0]"
  by code_simp

text \<open>
  Claim C5.  In every state of a \<open>Signature\<close> instance, \<open>verify(signature, data)\<close> throws the
  server-key-not-initialized error if and only if no remote verification key has been set.
  When a remote key is set, \<open>verify\<close> returns the boolean that the provider's verification
  returns: \<open>false\<close> for a signature that is cryptographically invalid, not an error.
\<close>

theorem verify_server_key:
  "(fst (fst (Signature_verify signatureBytes d (fst (sig_run h ops new_Signature w0)) w))
        = Inl ServerKeyNotInitialized
      \<longleftrightarrow> serverPublicKey (fst (sig_run h ops new_Signature w0)) = None)
   \<and> (serverPublicKey (fst (sig_run h ops new_Signature w0)) = Some k
        \<and> Signature.subtle (fst (sig_run h ops new_Signature w0)) = Some P
        \<and> verify P (AlgString ''Ed25519'') k signatureBytes (data_bytes d) w = (Inr valid, w1) \<longrightarrow>
       Signature_verify signatureBytes d (fst (sig_run h ops new_Signature w0)) w
         = ((Inr valid, fst (sig_run h ops new_Signature w0)), w1))"
proof -
  define s where "s = fst (sig_run h ops new_Signature w0)"
  have inv: "serverPublicKey s \<noteq> None \<longrightarrow> Signature.subtle s \<noteq> None"
    unfolding s_def by (rule sig_run_server_key) (simp add: new_Signature_def)
  have "(fst (fst (Signature_verify signatureBytes d s w)) = Inl ServerKeyNotInitialized
      \<longleftrightarrow> serverPublicKey s = None)"
    using inv by (auto simp add: Signature_verify_def split: option.splits prod.splits sum.splits)
  moreover have "serverPublicKey s = Some k \<and> Signature.subtle s = Some P
        \<and> verify P (AlgString ''Ed25519'') k signatureBytes (data_bytes d) w = (Inr valid, w1) \<longrightarrow>
       Signature_verify signatureBytes d s w = ((Inr valid, s), w1)"
    by (simp add: Signature_verify_def)
  ultimately show ?thesis unfolding s_def by (rule conjI)
qed

theorem verify_server_key_witness:
  "serverPublicKey (fst (sig_run (mockHost None) [SigInit] new_Signature 0)) = None
   \<and> fst (fst (Signature_verify [9] (Text ''m'')
        (fst (sig_run (mockHost None) [SigInit] new_Signature 0)) 1)) = Inl ServerKeyNotInitialized
   \<and> serverPublicKey (fst (sig_run (mockHost None) [SigInit, SigInitializeServerKey ''AAAA'']
        new_Signature 0)) = Some 101
   \<and> Signature.subtle (fst (sig_run (mockHost None) [SigInit, SigInitializeServerKey ''AAAA'']
        new_Signature 0)) = Some (mockSubtle None)
   \<and> verify (mockSubtle None) (AlgString ''Ed25519'') 101 [9] (data_bytes (Text ''m'')) 2
      = (Inr False, 3)
   \<and> fst (fst (Signature_verify [9] (Text ''m'')
        (fst (sig_run (mockHost None) [SigInit, SigInitializeServerKey ''AAAA''] new_Signature 0))
        2)) = Inr False"
  using verify_server_key [where signatureBytes = "[9]" and d = "Text ''m''"
      and h = "mockHost None" and ops = "[SigInit]" and ?w0.0 = 0 and w = 1 and k = 0
      and P = "mockSubtle None" and valid = False and ?w1.0 = 0]
    verify_server_key [where signatureBytes = "[9]" and d = "Text ''m''"
      and h = "mockHost None" and ops = "[SigInit, SigInitializeServerKey ''AAAA'']"
      and ?w0.0 = 0 and w = 2 and k = 101 and P = "mockSubtle None" and valid = False
      and ?w1.0 = 3]
  by (simp add: Signature_init_def new_Signature_def initializeServerKey_def decode_AAAA)

text \<open>
  Claim C8.  For every input string and every state of the instance,
  \<open>updateServerKey(k)\<close> is \<open>initializeServerKey(k)\<close>: the same stored remote key when the call
  succeeds, the same error when it fails, the same calls of the provider.
\<close>

theorem updateServerKey_is_initializeServerKey:
  "updateServerKey serverPublicKeyB64 this w = initializeServerKey serverPublicKeyB64 this w"
  by (simp add: updateServerKey_def split: prod.splits sum.splits)

section \<open>Properties of getInstance\<close>

lemma advance_counts:
  "acquisitions s \<le> acquisitions (advance cls rt i s)
   \<and> generateKey_calls s \<le> generateKey_calls (advance cls rt i s)"
  by (simp add: advance_def after_subtle_def acquire_subtle_def Let_def
      split: call.splits singleton_class.splits runtime.splits)

lemma run_schedule_counts:
  "acquisitions s \<le> acquisitions (run_schedule cls rt schedule s)
   \<and> generateKey_calls s \<le> generateKey_calls (run_schedule cls rt schedule s)"
proof (induction schedule arbitrary: s)
  case Nil
  then show ?case by simp
next
  case (Cons i schedule)
  show ?case
    using advance_counts [of s cls rt i] Cons.IH [of "advance cls rt i s"]
    by simp
qed

lemma two_calls_started:
  "acquisitions (run_schedule cls Browser [0, 1] (first_access 2)) = 2"
  "generateKey_calls (run_schedule SignatureClass Browser [0, 1] (first_access 2)) = 2"
  by (cases cls; simp add: first_access_def advance_def after_subtle_def acquire_subtle_def
      modify_def numeral_2_eq_2)+

text \<open>
  Claim C1 on the code.  Two first-time \<open>getInstance()\<close> calls, issued one after the other
  before either is resumed, do resolve to the same instance, the one the second call
  constructed.  But each call constructs an instance and initialises it: the capability is
  acquired twice and, for \<open>Signature\<close>, the key pair is generated twice, whatever the order
  in which the calls are resumed afterwards.  The claim asks for exactly one of each.
\<close>

theorem concurrent_getInstance_initialises_twice:
  "run_schedule SignatureClass Browser [0, 1, 0, 1, 0, 1] (first_access 2) =
     \<lparr>static_instance = Some 1, static_initialized = True,
      objects = [\<lparr>has_subtle = True, generated_keypair = Some 0\<rparr>,
                 \<lparr>has_subtle = True, generated_keypair = Some 1\<rparr>],
      acquisitions = 2, generateKey_calls = 2,
      calls = [Resolved (Some 1), Resolved (Some 1)]\<rparr>
   \<and> run_schedule KeyExchangeClass Browser [0, 1, 0, 1] (first_access 2) =
     \<lparr>static_instance = Some 1, static_initialized = True,
      objects = [\<lparr>has_subtle = True, generated_keypair = None\<rparr>,
                 \<lparr>has_subtle = True, generated_keypair = None\<rparr>],
      acquisitions = 2, generateKey_calls = 0,
      calls = [Resolved (Some 1), Resolved (Some 1)]\<rparr>
   \<and> 2 \<le> acquisitions (run_schedule cls Browser (0 # 1 # schedule) (first_access 2))
   \<and> 2 \<le> generateKey_calls (run_schedule SignatureClass Browser (0 # 1 # schedule) (first_access 2))"
proof -
  have a: "run_schedule SignatureClass Browser [0, 1, 0, 1, 0, 1] (first_access 2) =
     \<lparr>static_instance = Some 1, static_initialized = True,
      objects = [\<lparr>has_subtle = True, generated_keypair = Some 0\<rparr>,
                 \<lparr>has_subtle = True, generated_keypair = Some 1\<rparr>],
      acquisitions = 2, generateKey_calls = 2,
      calls = [Resolved (Some 1), Resolved (Some 1)]\<rparr>"
    by (simp add: first_access_def advance_def after_subtle_def acquire_subtle_def modify_def
        numeral_2_eq_2)
  have b: "run_schedule KeyExchangeClass Browser [0, 1, 0, 1] (first_access 2) =
     \<lparr>static_instance = Some 1, static_initialized = True,
      objects = [\<lparr>has_subtle = True, generated_keypair = None\<rparr>,
                 \<lparr>has_subtle = True, generated_keypair = None\<rparr>],
      acquisitions = 2, generateKey_calls = 0,
      calls = [Resolved (Some 1), Resolved (Some 1)]\<rparr>"
    by (simp add: first_access_def advance_def after_subtle_def acquire_subtle_def modify_def
        numeral_2_eq_2)
  have split: "run_schedule c Browser (0 # 1 # schedule) (first_access 2) =
      run_schedule c Browser schedule (run_schedule c Browser [0, 1] (first_access 2))" for c
    by simp
  have c: "2 \<le> acquisitions (run_schedule cls Browser (0 # 1 # schedule) (first_access 2))"
    using run_schedule_counts [of "run_schedule cls Browser [0, 1] (first_access 2)" cls Browser
        schedule]
    unfolding split two_calls_started by simp
  have d: "2 \<le> generateKey_calls
      (run_schedule SignatureClass Browser (0 # 1 # schedule) (first_access 2))"
    using run_schedule_counts [of "run_schedule SignatureClass Browser [0, 1] (first_access 2)"
        SignatureClass Browser schedule]
    unfolding split two_calls_started by simp
  show ?thesis
    using a b c d by simp
qed

end
